theory Spec2Isabelle
  imports Main "HOL-Library.Char_ord" "HOL-Library.List_Lexorder" "HOL-Library.Sublist"
begin

section \<open>Strings, bytes and the string primitives the adapter calls\<close>

text \<open>
  A JavaScript string is represented by its UTF-8 bytes, a \<open>Uint8Array\<close> by its bytes;
  both are \<open>char list\<close>. Only the ASCII letters change case, which is all that HTTP
  method names and header names contain.
\<close>

type_synonym bytes = string

definition toUpperCase_char :: "char \<Rightarrow> char" where
  "toUpperCase_char c =
     (case map_of (zip ''abcdefghijklmnopqrstuvwxyz'' ''ABCDEFGHIJKLMNOPQRSTUVWXYZ'') c of
        Some u \<Rightarrow> u | None \<Rightarrow> c)"

definition toLowerCase_char :: "char \<Rightarrow> char" where
  "toLowerCase_char c =
     (case map_of (zip ''ABCDEFGHIJKLMNOPQRSTUVWXYZ'' ''abcdefghijklmnopqrstuvwxyz'') c of
        Some l \<Rightarrow> l | None \<Rightarrow> c)"

definition toUpperCase :: "string \<Rightarrow> string" where
  "toUpperCase s = map toUpperCase_char s"

definition toLowerCase :: "string \<Rightarrow> string" where
  "toLowerCase s = map toLowerCase_char s"

text \<open>\<open>s.startsWith(p)\<close> and \<open>s.includes(p)\<close>.\<close>

fun startsWith :: "string \<Rightarrow> string \<Rightarrow> bool" where
  "startsWith s [] = True"
| "startsWith [] (p # ps) = False"
| "startsWith (c # cs) (p # ps) = (c = p \<and> startsWith cs ps)"

fun includes_str :: "string \<Rightarrow> string \<Rightarrow> bool" where
  "includes_str [] p = (p = [])"
| "includes_str (c # cs) p = (startsWith (c # cs) p \<or> includes_str cs p)"

text \<open>\<open>n.toString()\<close> for a non-negative integer status code.\<close>

definition digit_char :: "nat \<Rightarrow> char" where
  "digit_char d = ''0123456789'' ! (d mod 10)"

fun toString :: "nat \<Rightarrow> string" where
  "toString n = (if n < 10 then [digit_char n] else toString (n div 10) @ [digit_char n])"

declare toString.simps [simp del]

section \<open>Platform objects: Headers and the standard Response\<close>

datatype error = TypeError | RangeError | StreamError | Thrown string

text \<open>
  The platform's \<open>Headers\<close> class, as far as the adapter uses it. A \<open>Headers\<close> object is
  its header list: names lower-cased, in the order they were appended. \<open>get\<close> joins the
  values of one name with a comma and a space; iteration (\<open>forEach\<close>) visits the names
  sorted, each with its joined value, except that every \<open>set-cookie\<close> line is visited on
  its own. Names and values are taken to be well-formed already.
\<close>

type_synonym pairs = "(string \<times> string) list"
type_synonym Headers = "(string \<times> string) list"

definition Headers_new :: "pairs \<Rightarrow> Headers" where
  "Headers_new ps = map (\<lambda>(k, v). (toLowerCase k, v)) ps"

fun join_values :: "string list \<Rightarrow> string" where
  "join_values [] = []"
| "join_values [v] = v"
| "join_values (v # w # vs) = v @ '', '' @ join_values (w # vs)"

definition values_of :: "Headers \<Rightarrow> string \<Rightarrow> string list" where
  "values_of h n = map snd (filter (\<lambda>kv. fst kv = n) h)"

definition Headers_get :: "Headers \<Rightarrow> string \<Rightarrow> string option" where
  "Headers_get h name =
     (let vs = values_of h (toLowerCase name)
      in if vs = [] then None else Some (join_values vs))"

definition Headers_forEach :: "Headers \<Rightarrow> pairs" where
  "Headers_forEach h =
     concat (map (\<lambda>n. if n = ''set-cookie'' then map (Pair n) (values_of h n)
                       else [(n, join_values (values_of h n))])
                 (sort (remdups (map fst h))))"

text \<open>
  The body values a response can be built from. A stream carries what reading it to
  the end yields: its bytes, or the error it fails with. \<open>BodyArrayBuffer\<close> stands for the
  body kinds the adapter's constructor does not recognise (\<open>ArrayBuffer\<close>, other views).
\<close>

datatype BodyInit =
    BodyString string
  | BodyStream "error + bytes"
  | BodyBlob string bytes
  | BodyUint8Array bytes
  | BodyArrayBuffer bytes

datatype HeadersInit =
    InitHeaders Headers
  | InitArray pairs
  | InitRecord pairs

record ResponseInit =
  init_status :: "nat option"
  init_headers :: "HeadersInit option"

record GlobalResponse =
  g_status :: nat
  g_headers :: Headers
  g_body :: "(error + bytes) option"
  g_bodyUsed :: bool

definition body_bytes :: "BodyInit \<Rightarrow> error + bytes" where
  "body_bytes b =
     (case b of
        BodyString s \<Rightarrow> Inr s
      | BodyStream x \<Rightarrow> x
      | BodyBlob ty bs \<Rightarrow> Inr bs
      | BodyUint8Array bs \<Rightarrow> Inr bs
      | BodyArrayBuffer bs \<Rightarrow> Inr bs)"

definition body_content_type :: "BodyInit \<Rightarrow> string option" where
  "body_content_type b =
     (case b of
        BodyString s \<Rightarrow> Some ''text/plain;charset=UTF-8''
      | BodyBlob ty bs \<Rightarrow> (if ty = [] then None else Some ty)
      | _ \<Rightarrow> None)"

definition Headers_of_init :: "ResponseInit option \<Rightarrow> Headers" where
  "Headers_of_init init =
     (case init of
        None \<Rightarrow> []
      | Some i \<Rightarrow>
          (case init_headers i of
             None \<Rightarrow> []
           | Some (InitHeaders h) \<Rightarrow> h
           | Some (InitArray ps) \<Rightarrow> Headers_new ps
           | Some (InitRecord ps) \<Rightarrow> Headers_new ps))"

text \<open>
  \<open>new GlobalResponse(body, init)\<close>: the status defaults to 200 and must lie in
  200..599; a body is refused with a null-body status; a body that has a type supplies the
  \<open>content-type\<close> header when the caller gave none.
\<close>

definition GlobalResponse_new :: "BodyInit option \<Rightarrow> ResponseInit option \<Rightarrow> error + GlobalResponse" where
  "GlobalResponse_new body init =
     (let st = (case init of None \<Rightarrow> 200
                | Some i \<Rightarrow> (case init_status i of None \<Rightarrow> 200 | Some s \<Rightarrow> s));
          h = Headers_of_init init
      in if st < 200 \<or> 599 < st then Inl RangeError
         else if body \<noteq> None \<and> (st = 204 \<or> st = 205 \<or> st = 304) then Inl TypeError
         else Inr \<lparr> g_status = st,
                    g_headers =
                      (case body of
                         None \<Rightarrow> h
                       | Some b \<Rightarrow>
                           (case body_content_type b of
                              None \<Rightarrow> h
                            | Some ct \<Rightarrow>
                                if Headers_get h ''content-type'' = None
                                then h @ [(''content-type'', ct)] else h)),
                    g_body = map_option body_bytes body,
                    g_bodyUsed = False \<rparr>)"

text \<open>
  \<open>text()\<close> and \<open>arrayBuffer()\<close> of the standard response. A body can be consumed once;
  a null body reads as empty and stays unused. \<open>decode\<close> is the platform's UTF-8 decoder,
  a parameter of the model.
\<close>

definition Response_arrayBuffer :: "GlobalResponse \<Rightarrow> error + (bytes \<times> GlobalResponse)" where
  "Response_arrayBuffer g =
     (if g_bodyUsed g then Inl TypeError
      else case g_body g of
             None \<Rightarrow> Inr ([], g)
           | Some (Inl e) \<Rightarrow> Inl e
           | Some (Inr bs) \<Rightarrow> Inr (bs, g\<lparr>g_bodyUsed := True\<rparr>))"

definition Response_text :: "(bytes \<Rightarrow> string) \<Rightarrow> GlobalResponse \<Rightarrow> error + (string \<times> GlobalResponse)" where
  "Response_text decode g =
     (case Response_arrayBuffer g of
        Inl e \<Rightarrow> Inl e
      | Inr (bs, g') \<Rightarrow> Inr (decode bs, g'))"

section \<open>LightweightResponse\<close>

datatype CachedHeaders = CHeaders Headers | CRecord pairs

type_synonym ResponseCache = "nat \<times> BodyInit \<times> CachedHeaders"

record LightweightResponse =
  body_priv :: "BodyInit option"
  init_priv :: "ResponseInit option"
  responseCache :: "GlobalResponse option"
  cacheKey :: "ResponseCache option"

text \<open>The constructor's test for the bodies it caches.\<close>

definition cached_kind :: "BodyInit option \<Rightarrow> bool" where
  "cached_kind body =
     (case body of
        None \<Rightarrow> True
      | Some (BodyString s) \<Rightarrow> True
      | Some (BodyStream x) \<Rightarrow> True
      | Some (BodyBlob ty bs) \<Rightarrow> True
      | Some (BodyUint8Array bs) \<Rightarrow> True
      | Some (BodyArrayBuffer bs) \<Rightarrow> False)"

definition LightweightResponse_new :: "BodyInit option \<Rightarrow> ResponseInit option \<Rightarrow> LightweightResponse" where
  "LightweightResponse_new body init =
     \<lparr> body_priv = body,
       init_priv = init,
       responseCache = None,
       cacheKey =
         (if cached_kind body then
            (let headers =
                   (case (case init of None \<Rightarrow> None | Some i \<Rightarrow> init_headers i) of
                      Some (InitHeaders h) \<Rightarrow> CHeaders h
                    | Some (InitArray ps) \<Rightarrow> CHeaders (Headers_new ps)
                    | Some (InitRecord ps) \<Rightarrow> CRecord ps
                    | None \<Rightarrow> CRecord [])
             in Some ((case (case init of None \<Rightarrow> None | Some i \<Rightarrow> init_status i) of
                         None \<Rightarrow> 200
                       | Some s \<Rightarrow> if s = 0 then 200 else s),
                      (case body of None \<Rightarrow> BodyString [] | Some b \<Rightarrow> b),
                      headers))
          else None) \<rparr>"

definition getResponseCache :: "LightweightResponse \<Rightarrow> error + (GlobalResponse \<times> LightweightResponse)" where
  "getResponseCache r =
     (let r' = r\<lparr>cacheKey := None\<rparr>
      in case responseCache r' of
           Some g \<Rightarrow> Inr (g, r')
         | None \<Rightarrow>
             (case GlobalResponse_new (body_priv r') (init_priv r') of
                Inl e \<Rightarrow> Inl e
              | Inr g \<Rightarrow> Inr (g, r'\<lparr>responseCache := Some g\<rparr>)))"

definition headers_getter :: "LightweightResponse \<Rightarrow> error + (Headers \<times> LightweightResponse)" where
  "headers_getter r =
     (case cacheKey r of
        Some (st, b, ch) \<Rightarrow>
          (let h = (case ch of CHeaders h \<Rightarrow> h | CRecord ps \<Rightarrow> Headers_new ps)
           in Inr (h, r\<lparr>cacheKey := Some (st, b, CHeaders h)\<rparr>))
      | None \<Rightarrow>
          (case getResponseCache r of
             Inl e \<Rightarrow> Inl e
           | Inr (g, r') \<Rightarrow> Inr (g_headers g, r')))"

definition status_getter :: "LightweightResponse \<Rightarrow> error + (nat \<times> LightweightResponse)" where
  "status_getter r =
     (case cacheKey r of
        Some (st, b, ch) \<Rightarrow> Inr (st, r)
      | None \<Rightarrow>
          (case getResponseCache r of
             Inl e \<Rightarrow> Inl e
           | Inr (g, r') \<Rightarrow> Inr (g_status g, r')))"

text \<open>The proxied \<open>text\<close> and \<open>arrayBuffer\<close> methods: materialise, then delegate.\<close>

definition text_method :: "(bytes \<Rightarrow> string) \<Rightarrow> LightweightResponse \<Rightarrow> error + (string \<times> LightweightResponse)" where
  "text_method decode r =
     (case getResponseCache r of
        Inl e \<Rightarrow> Inl e
      | Inr (g, r') \<Rightarrow>
          (case Response_text decode g of
             Inl e \<Rightarrow> Inl e
           | Inr (s, g') \<Rightarrow> Inr (s, r'\<lparr>responseCache := Some g'\<rparr>)))"

definition arrayBuffer_method :: "LightweightResponse \<Rightarrow> error + (bytes \<times> LightweightResponse)" where
  "arrayBuffer_method r =
     (case getResponseCache r of
        Inl e \<Rightarrow> Inl e
      | Inr (g, r') \<Rightarrow>
          (case Response_arrayBuffer g of
             Inl e \<Rightarrow> Inl e
           | Inr (bs, g') \<Rightarrow> Inr (bs, r'\<lparr>responseCache := Some g'\<rparr>)))"

section \<open>Response Writer\<close>

text \<open>
  The calls made on the transport's response handle, in order. \<open>res.end()\<close> without an
  argument finishes an empty body and is recorded as \<open>End []\<close>. \<open>res.cork\<close> runs its
  callback at once, so a corked batch is the calls of its callback.
\<close>

datatype uws_call = WriteStatus string | WriteHeader string string | End bytes

definition writeHeaders :: "CachedHeaders \<Rightarrow> uws_call list" where
  "writeHeaders headers =
     (case headers of
        CHeaders h \<Rightarrow> map (\<lambda>(key, value). WriteHeader key value) (Headers_forEach h)
      | CRecord ps \<Rightarrow> map (\<lambda>(key, value). WriteHeader key value) ps)"

definition writeResponseViaCache :: "ResponseCache \<Rightarrow> bool \<Rightarrow> bool \<times> uws_call list" where
  "writeResponseViaCache cache aborted =
     (if aborted then (True, [])
      else case cache of
             (status, body, headers) \<Rightarrow>
               (case body of
                  BodyString s \<Rightarrow>
                    (True, [WriteStatus (toString status)] @ writeHeaders headers @ [End s])
                | BodyUint8Array bs \<Rightarrow>
                    (True, [WriteStatus (toString status)] @ writeHeaders headers @ [End bs])
                | _ \<Rightarrow> (False, [])))"

text \<open>The test \<open>writeResponseAsync\<close> applies to the content type before it resolves the body.\<close>

definition resolvesAsText :: "string option \<Rightarrow> bool" where
  "resolvesAsText contentType =
     (case contentType of
        None \<Rightarrow> False
      | Some ct \<Rightarrow>
          ct \<noteq> [] \<and>
          (startsWith ct ''text/'' \<or> startsWith ct ''application/json'' \<or> includes_str ct ''+json''))"

text \<open>
  \<open>aborted\<close> is the connection's flag as a function of logical time; the function is
  entered at time \<open>t\<close> and resumes after its \<open>await\<close> at time \<open>Suc t\<close>. The result is the
  calls made and the error the returned promise rejects with, if any.
\<close>

definition writeResponseAsync ::
  "(bytes \<Rightarrow> string) \<Rightarrow> LightweightResponse \<Rightarrow> (nat \<Rightarrow> bool) \<Rightarrow> nat \<Rightarrow> uws_call list \<times> error option" where
  "writeResponseAsync decode honoResponse aborted t =
     (if aborted t then ([], None)
      else case headers_getter honoResponse of
             Inl e \<Rightarrow> ([], Some e)
           | Inr (h, r1) \<Rightarrow>
               (let contentType = Headers_get h ''content-type''
                in case status_getter r1 of
                     Inl e \<Rightarrow> ([], Some e)
                   | Inr (status, r2) \<Rightarrow>
                       if resolvesAsText contentType then
                         (case text_method decode r2 of
                            Inl e \<Rightarrow> ([], Some e)
                          | Inr (text, r3) \<Rightarrow>
                              if aborted (Suc t) then ([], None)
                              else (case headers_getter r3 of
                                      Inl e \<Rightarrow> ([WriteStatus (toString status)], Some e)
                                    | Inr (h', r4) \<Rightarrow>
                                        ([WriteStatus (toString status)]
                                         @ map (\<lambda>(key, value). WriteHeader key value) (Headers_forEach h')
                                         @ [End text], None)))
                       else
                         (case arrayBuffer_method r2 of
                            Inl e \<Rightarrow> ([], Some e)
                          | Inr (responseBody, r3) \<Rightarrow>
                              if aborted (Suc t) then ([], None)
                              else (case headers_getter r3 of
                                      Inl e \<Rightarrow> ([WriteStatus (toString status)], Some e)
                                    | Inr (h', r4) \<Rightarrow>
                                        ([WriteStatus (toString status)]
                                         @ map (\<lambda>(key, value). WriteHeader key value) (Headers_forEach h')
                                         @ [End (if length responseBody > 0 then responseBody else [])],
                                         None)))))"

text \<open>
  What \<open>app.fetch\<close> hands back: a response, or a promise that settles one tick later with a
  response or a rejection. The part of the \<open>any\<close> route's callback that follows the call of
  \<open>app.fetch\<close> runs at time 0, its \<open>then\<close> continuation at time 1.
\<close>

datatype fetch_result = Returned LightweightResponse | Promised "error + LightweightResponse"

definition viaCache :: "LightweightResponse \<Rightarrow> bool \<Rightarrow> bool \<times> uws_call list" where
  "viaCache response aborted =
     (case cacheKey response of
        Some cache \<Rightarrow> writeResponseViaCache cache aborted
      | None \<Rightarrow> (False, []))"

definition any_handler_response ::
  "(bytes \<Rightarrow> string) \<Rightarrow> fetch_result \<Rightarrow> (nat \<Rightarrow> bool) \<Rightarrow> uws_call list \<times> error option" where
  "any_handler_response decode honoResponse aborted =
     (case honoResponse of
        Returned r \<Rightarrow>
          (case viaCache r (aborted 0) of
             (True, calls) \<Rightarrow> (calls, None)
           | (False, calls) \<Rightarrow> writeResponseAsync decode r aborted 0)
      | Promised (Inl e) \<Rightarrow> ([], Some e)
      | Promised (Inr response) \<Rightarrow>
          if aborted 1 then ([], None)
          else (case viaCache response (aborted 1) of
                  (True, calls) \<Rightarrow> (calls, None)
                | (False, calls) \<Rightarrow> writeResponseAsync decode response aborted 1))"

section \<open>The specification's wording, for comparison with the code\<close>

text \<open>The body variants the specification calls fast-path eligible: None, Text and Bytes.\<close>

definition spec_fast_path_variant :: "BodyInit option \<Rightarrow> bool" where
  "spec_fast_path_variant body =
     (case body of
        None \<Rightarrow> True
      | Some (BodyString s) \<Rightarrow> True
      | Some (BodyUint8Array bs) \<Rightarrow> True
      | Some other \<Rightarrow> False)"

definition endsWith :: "string \<Rightarrow> string \<Rightarrow> bool" where
  "endsWith s p = startsWith (rev s) (rev p)"

text \<open>
  The specification's content-type test: starts with \<open>text/\<close>, equals or contains
  \<open>application/json\<close>, or ends with \<open>+json\<close>.
\<close>

definition spec_resolvesAsText :: "string option \<Rightarrow> bool" where
  "spec_resolvesAsText contentType =
     (case contentType of
        None \<Rightarrow> False
      | Some ct \<Rightarrow>
          startsWith ct ''text/'' \<or> includes_str ct ''application/json'' \<or> endsWith ct ''+json'')"


section \<open>Lazy request\<close>

text \<open>
  The body handle of a request is the readable side of its connection's body stream
  bridge. Materialised request objects live in a store and are known by their address,
  so that two promotions can be asked whether they return the very same object. The
  store also counts how often a body stream has been read.
\<close>

datatype ReadableStream = BridgeReadable

type_synonym ref = nat

record RequestObject =
  r_url :: string
  r_method :: string
  r_headers :: pairs
  r_body :: "ReadableStream option"
  r_duplex :: "string option"
  r_bodyUsed :: bool

record store =
  objects :: "ref \<rightharpoonup> RequestObject"
  next_ref :: ref
  body_reads :: nat

record LazyRequest =
  methodKey :: string
  urlKey :: string
  headersDataKey :: pairs
  headersKey :: "Headers option"
  bodyKey :: "ReadableStream option"
  requestCacheKey :: "ref option"

definition createLazyRequest :: "string \<Rightarrow> string \<Rightarrow> pairs \<Rightarrow> ReadableStream option \<Rightarrow> LazyRequest" where
  "createLazyRequest method url headersData body =
     \<lparr> methodKey = method, urlKey = url, headersDataKey = headersData,
       headersKey = None, bodyKey = body, requestCacheKey = None \<rparr>"

text \<open>
  \<open>new LightweightRequest(input, options)\<close> for a string \<open>input\<close>: a stream body gets
  \<open>duplex = "half"\<close>, then the platform constructor runs. Whether the platform accepts
  the URL, method, headers and body is the parameter \<open>accepts\<close>; a refusal is a
  \<open>TypeError\<close> and allocates nothing.
\<close>

definition LightweightRequest_new ::
  "(RequestObject \<Rightarrow> bool) \<Rightarrow> string \<Rightarrow> string \<Rightarrow> pairs \<Rightarrow> ReadableStream option \<Rightarrow> store
     \<Rightarrow> error + (ref \<times> store)" where
  "LightweightRequest_new accepts input method headers body st =
     (let obj = \<lparr> r_url = input, r_method = method, r_headers = headers, r_body = body,
                   r_duplex = (case body of None \<Rightarrow> None | Some b \<Rightarrow> Some ''half''),
                   r_bodyUsed = False \<rparr>
      in if accepts obj
         then Inr (next_ref st,
                   st\<lparr>objects := (objects st)(next_ref st \<mapsto> obj), next_ref := Suc (next_ref st)\<rparr>)
         else Inl TypeError)"

definition getRequestCache ::
  "(RequestObject \<Rightarrow> bool) \<Rightarrow> LazyRequest \<times> store \<Rightarrow> (error + ref) \<times> (LazyRequest \<times> store)" where
  "getRequestCache accepts s =
     (case s of
        (self, st) \<Rightarrow>
          (case requestCacheKey self of
             Some r \<Rightarrow> (Inr r, (self, st))
           | None \<Rightarrow>
               (case LightweightRequest_new accepts (urlKey self) (methodKey self)
                       (headersDataKey self) (bodyKey self) st of
                  Inl e \<Rightarrow> (Inl e, (self, st))
                | Inr (r, st') \<Rightarrow> (Inr r, (self\<lparr>requestCacheKey := Some r\<rparr>, st')))))"

text \<open>
  The platform's \<open>text()\<close> on a materialised request: a used body is refused; otherwise
  a body stream is read to its end, once, and marked used.
\<close>

definition Request_text :: "ref \<Rightarrow> store \<Rightarrow> (error + unit) \<times> store" where
  "Request_text r st =
     (case objects st r of
        None \<Rightarrow> (Inl TypeError, st)
      | Some obj \<Rightarrow>
          if r_bodyUsed obj then (Inl TypeError, st)
          else (case r_body obj of
                  None \<Rightarrow> (Inr (), st)
                | Some b \<Rightarrow>
                    (Inr (), st\<lparr>objects := (objects st)(r \<mapsto> obj\<lparr>r_bodyUsed := True\<rparr>),
                                body_reads := Suc (body_reads st)\<rparr>)))"

text \<open>The proxied \<open>text\<close> method of the lazy request: promote, then delegate.\<close>

definition text_accessor ::
  "(RequestObject \<Rightarrow> bool) \<Rightarrow> LazyRequest \<times> store \<Rightarrow> (error + unit) \<times> (LazyRequest \<times> store)" where
  "text_accessor accepts s =
     (case getRequestCache accepts s of
        (Inl e, s') \<Rightarrow> (Inl e, s')
      | (Inr r, (self, st)) \<Rightarrow>
          (case Request_text r st of (res, st') \<Rightarrow> (res, (self, st'))))"

text \<open>A sequence of uses of one descriptor; the results of the promotions are collected.\<close>

datatype request_use = Promote | ReadText

fun uses :: "(RequestObject \<Rightarrow> bool) \<Rightarrow> request_use list \<Rightarrow> LazyRequest \<times> store
               \<Rightarrow> (error + ref) list \<times> (LazyRequest \<times> store)" where
  "uses accepts [] s = ([], s)"
| "uses accepts (Promote # us) s =
     (case getRequestCache accepts s of
        (res, s') \<Rightarrow> (case uses accepts us s' of (rs, s'') \<Rightarrow> (res # rs, s'')))"
| "uses accepts (ReadText # us) s =
     (case text_accessor accepts s of (res, s') \<Rightarrow> uses accepts us s')"

definition empty_store :: store where
  "empty_store = \<lparr> objects = Map.empty, next_ref = 0, body_reads = 0 \<rparr>"

section \<open>The transport's response handle and the body stream bridge\<close>

text \<open>
  The state behind one \<open>uWS.HttpResponse\<close>. The transport keeps one data handler and one
  abort handler per response: \<open>res.onData\<close> and \<open>res.onAborted\<close> store the function
  they are given in place of the one stored before. The two closures the adapter
  registers with \<open>onAborted\<close> are \<open>AbortWriter\<close> (in \<open>getBody\<close>) and \<open>SetAborted\<close> (in the
  route callback). The bridge is the \<open>TransformStream\<close> of \<open>getBody\<close>: the chunks written
  and not yet read, and the state of its readable side.
\<close>

datatype aborted_handler = AbortWriter | SetAborted

datatype stream_state = Readable | Closed | Errored

record TransformStream =
  queue :: "bytes list"
  readable :: stream_state

record HttpResponse =
  onData_handler :: bool
  onAborted_handler :: "aborted_handler option"
  bridge :: "TransformStream option"
  aborted_flag :: bool

definition new_HttpResponse :: HttpResponse where
  "new_HttpResponse =
     \<lparr> onData_handler = False, onAborted_handler = None, bridge = None, aborted_flag = False \<rparr>"

definition getBody :: "HttpResponse \<Rightarrow> ReadableStream \<times> HttpResponse" where
  "getBody res =
     (BridgeReadable,
      res\<lparr> bridge := Some \<lparr> queue = [], readable = Readable \<rparr>,
           onData_handler := True,
           onAborted_handler := Some AbortWriter \<rparr>)"

text \<open>The transport delivers a chunk: the registered data handler copies and queues it.\<close>

definition deliver_chunk :: "bytes \<Rightarrow> bool \<Rightarrow> HttpResponse \<Rightarrow> HttpResponse" where
  "deliver_chunk chunk isLast res =
     (if onData_handler res then
        (case bridge res of
           None \<Rightarrow> res
         | Some ts \<Rightarrow>
             if readable ts = Readable
             then res\<lparr>bridge := Some (ts\<lparr> queue := queue ts @ [chunk],
                                           readable := (if isLast then Closed else Readable) \<rparr>)\<rparr>
             else res)
      else res)"

text \<open>The transport reports the connection aborted: the stored abort handler runs.\<close>

definition abort_notification :: "HttpResponse \<Rightarrow> HttpResponse" where
  "abort_notification res =
     (case onAborted_handler res of
        None \<Rightarrow> res
      | Some AbortWriter \<Rightarrow>
          (case bridge res of
             None \<Rightarrow> res
           | Some ts \<Rightarrow> res\<lparr>bridge := Some (ts\<lparr> queue := [], readable := Errored \<rparr>)\<rparr>)
      | Some SetAborted \<Rightarrow> res\<lparr>aborted_flag := True\<rparr>)"

text \<open>What a consumer's read of the body stream gets.\<close>

datatype read_result = Chunk bytes | Done | Rejected | Pending

definition consumer_read :: "HttpResponse \<Rightarrow> read_result" where
  "consumer_read res =
     (case bridge res of
        None \<Rightarrow> Done
      | Some ts \<Rightarrow>
          (case readable ts of
             Errored \<Rightarrow> Rejected
           | Readable \<Rightarrow> (case queue ts of [] \<Rightarrow> Pending | c # cs \<Rightarrow> Chunk c)
           | Closed \<Rightarrow> (case queue ts of [] \<Rightarrow> Done | c # cs \<Rightarrow> Chunk c)))"

section \<open>The route callback, up to the call of the application\<close>

record HttpRequest =
  req_method :: string
  req_url :: string
  req_query :: string
  req_headers :: pairs

definition getHeader :: "HttpRequest \<Rightarrow> string \<Rightarrow> string" where
  "getHeader req name = (case map_of (req_headers req) name of None \<Rightarrow> [] | Some v \<Rightarrow> v)"

definition any_handler_request :: "string \<Rightarrow> HttpRequest \<Rightarrow> HttpResponse \<Rightarrow> LazyRequest \<times> HttpResponse" where
  "any_handler_request protocol req res =
     (let method = toUpperCase (req_method req);
          path = req_url req;
          query = req_query req;
          host = getHeader req ''host'';
          headersData = req_headers req;
          urlString = (if query \<noteq> [] then protocol @ ''://'' @ host @ path @ ''?'' @ query
                       else protocol @ ''://'' @ host @ path);
          (body, res1) = (if method = ''GET'' \<or> method = ''HEAD'' \<or> method = ''OPTIONS''
                          then (None, res)
                          else (case getBody res of (b, r) \<Rightarrow> (Some b, r)));
          res2 = res1\<lparr> aborted_flag := False, onAborted_handler := Some SetAborted \<rparr>
      in (createLazyRequest method urlString headersData body, res2))"

section \<open>WebSocket sessions\<close>

text \<open>
  What is observed of a session: the synthetic call of the application, the handler
  factory and the callbacks being invoked, the calls on the socket, and the error log.
\<close>

datatype message_data = BinaryData bytes | TextData string

datatype ws_event =
    AppFetch LazyRequest
  | HandlerCalled
  | OnOpenCalled
  | OnMessageCalled message_data
  | OnCloseCalled nat string
  | WsSend string
  | WsEnd nat string
  | ConsoleError error

text \<open>
  A callback is what it does when invoked: the calls it makes on the socket, and the
  error it throws, if any.
\<close>

type_synonym callback_run = "ws_event list \<times> error option"

record WSEvents =
  onOpen :: "callback_run option"
  onMessage :: "(message_data \<Rightarrow> callback_run) option"
  onClose :: "(nat \<Rightarrow> string \<Rightarrow> callback_run) option"
  onError :: "callback_run option"

record Context =
  ctx_url :: string
  ctx_headers :: pairs
  ctx_raw :: LazyRequest

type_synonym WSHandler = "Context \<Rightarrow> error + WSEvents"

type_synonym registry = "string \<rightharpoonup> WSHandler"

record WebSocketData =
  ws_url :: string
  ws_headers :: pairs
  ws_events :: "WSEvents option"
  ws_context :: "Context option"

text \<open>
  The application: given the registry and a request it returns a response or fails, and
  may register handlers on the way, as the \<open>upgradeWebSocket\<close> middleware does.
\<close>

type_synonym HonoLike = "registry \<Rightarrow> LazyRequest \<Rightarrow> (error + LightweightResponse) \<times> registry"

definition upgradeWebSocket :: "(string \<Rightarrow> error + string) \<Rightarrow> WSHandler \<Rightarrow> HonoLike" where
  "upgradeWebSocket pathname handler wsHandlers request =
     (case pathname (urlKey request) of
        Inl e \<Rightarrow> (Inl e, wsHandlers)
      | Inr p \<Rightarrow>
          (Inr (LightweightResponse_new None
                  (Some \<lparr>init_status = Some 101, init_headers = None\<rparr>)),
           wsHandlers(p \<mapsto> handler)))"

text \<open>The \<open>catch\<close> of the \<open>open\<close> callback.\<close>

definition caught :: "ws_event list \<Rightarrow> error \<Rightarrow> ws_event list \<times> error option" where
  "caught tr e = (tr @ [ConsoleError e, WsEnd 1011 ''Internal Error''], None)"

text \<open>The \<open>open\<close> callback from the point where a handler has been found.\<close>

definition open_with_handler ::
  "WSHandler \<Rightarrow> ws_event list \<Rightarrow> WebSocketData \<Rightarrow> (ws_event list \<times> error option) \<times> WebSocketData" where
  "open_with_handler handler tr data =
     (let request = createLazyRequest ''GET'' (ws_url data) (ws_headers data) None;
          mockContext = \<lparr> ctx_url = ws_url data, ctx_headers = ws_headers data, ctx_raw = request \<rparr>
      in case handler mockContext of
           Inl e \<Rightarrow> (caught (tr @ [HandlerCalled]) e, data)
         | Inr events \<Rightarrow>
             (let data' = data\<lparr> ws_events := Some events, ws_context := Some mockContext \<rparr>
              in case onOpen events of
                   None \<Rightarrow> ((tr @ [HandlerCalled], None), data')
                 | Some (calls, None) \<Rightarrow> ((tr @ [HandlerCalled, OnOpenCalled] @ calls, None), data')
                 | Some (calls, Some e) \<Rightarrow>
                     (caught (tr @ [HandlerCalled, OnOpenCalled] @ calls) e, data')))"

text \<open>
  The \<open>open\<close> callback. \<open>pathname\<close> is the platform's URL parser; it runs before the
  \<open>try\<close>, so its failure rejects the callback's promise. The result is the events, the
  error that escapes the callback if any, the registry and the session data afterwards.
\<close>

definition ws_open ::
  "(string \<Rightarrow> error + string) \<Rightarrow> HonoLike \<Rightarrow> registry \<Rightarrow> WebSocketData
     \<Rightarrow> (ws_event list \<times> error option) \<times> registry \<times> WebSocketData" where
  "ws_open pathname app wsHandlers data =
     (case pathname (ws_url data) of
        Inl e \<Rightarrow> (([], Some e), wsHandlers, data)
      | Inr path \<Rightarrow>
          (case wsHandlers path of
             Some handler \<Rightarrow>
               (case open_with_handler handler [] data of (out, data') \<Rightarrow> (out, wsHandlers, data'))
           | None \<Rightarrow>
               (let request = createLazyRequest ''GET'' (ws_url data) (ws_headers data) None
                in case app wsHandlers request of
                     (Inl e, reg) \<Rightarrow> (caught [AppFetch request] e, reg, data)
                   | (Inr response, reg) \<Rightarrow>
                       (case status_getter response of
                          Inl e \<Rightarrow> (caught [AppFetch request] e, reg, data)
                        | Inr (status, response') \<Rightarrow>
                            if status \<noteq> 101
                            then (([AppFetch request, WsEnd 1008 ''Not Found''], None), reg, data)
                            else (case reg path of
                                    None \<Rightarrow>
                                      (([AppFetch request, WsEnd 1008 ''Not Found''], None), reg, data)
                                  | Some handler \<Rightarrow>
                                      (case open_with_handler handler [AppFetch request] data of
                                         (out, data') \<Rightarrow> (out, reg, data')))))))"

text \<open>
  The \<open>message\<close> and \<open>close\<close> callbacks. They have no \<open>try\<close>: what the stored callback
  throws leaves them. \<open>decode\<close> is the platform's \<open>TextDecoder\<close>.
\<close>

definition ws_message ::
  "(bytes \<Rightarrow> string) \<Rightarrow> WebSocketData \<Rightarrow> bytes \<Rightarrow> bool \<Rightarrow> ws_event list \<times> error option" where
  "ws_message decode data message isBinary =
     (case ws_events data of
        None \<Rightarrow> ([], None)
      | Some events \<Rightarrow>
          (case onMessage events of
             None \<Rightarrow> ([], None)
           | Some cb \<Rightarrow>
               (let messageData = (if isBinary then BinaryData message else TextData (decode message))
                in case cb messageData of
                     (calls, err) \<Rightarrow> (OnMessageCalled messageData # calls, err))))"

definition ws_close ::
  "(bytes \<Rightarrow> string) \<Rightarrow> WebSocketData \<Rightarrow> nat \<Rightarrow> bytes \<Rightarrow> ws_event list \<times> error option" where
  "ws_close decode data code message =
     (case ws_events data of
        None \<Rightarrow> ([], None)
      | Some events \<Rightarrow>
          (case onClose events of
             None \<Rightarrow> ([], None)
           | Some cb \<Rightarrow>
               (let reason = decode message
                in case cb code reason of
                     (calls, err) \<Rightarrow> (OnCloseCalled code reason # calls, err))))"

text \<open>
  The state of a descriptor and its store between uses: nothing materialised and nothing
  read, or exactly one object, the memoised one, whose body has been read at most once.
\<close>

definition memo_inv :: "LazyRequest \<times> store \<Rightarrow> bool" where
  "memo_inv s =
     (case requestCacheKey (fst s) of
        None \<Rightarrow> objects (snd s) = Map.empty \<and> body_reads (snd s) = 0
      | Some r \<Rightarrow>
          dom (objects (snd s)) = {r} \<and>
          (body_reads (snd s) = 0 \<or>
           body_reads (snd s) = 1 \<and> (\<exists>obj. objects (snd s) r = Some obj \<and> r_bodyUsed obj)))"

section \<open>Properties of the response objects\<close>

lemma startsWith_prefix: "startsWith s p = prefix p s"
  by (induction s p rule: startsWith.induct) auto

lemma includes_str_sublist: "includes_str s p = sublist p s"
  by (induction s) (auto simp: startsWith_prefix sublist_Cons_right)

lemma resolvesAsText_iff:
  "resolvesAsText c =
     (\<exists>ct. c = Some ct \<and> (prefix ''text/'' ct \<or> prefix ''application/json'' ct \<or> sublist ''+json'' ct))"
  by (cases c) (auto simp: resolvesAsText_def startsWith_prefix includes_str_sublist)

lemma getResponseCache_cacheKey [simp]:
  "getResponseCache (r\<lparr>cacheKey := x\<rparr>) = getResponseCache r"
  by (simp add: getResponseCache_def)

lemma getResponseCache_idem:
  "getResponseCache r = Inr (g, r') \<Longrightarrow> getResponseCache r' = Inr (g, r')"
  by (auto simp: getResponseCache_def Let_def split: option.splits sum.splits)

lemma getResponseCache_shape:
  "getResponseCache r = Inr (g, r') \<Longrightarrow> cacheKey r' = None \<and> responseCache r' = Some g"
  by (auto simp: getResponseCache_def Let_def split: option.splits sum.splits)

lemma headers_getter_keeps:
  "headers_getter r = Inr (h, r1) \<Longrightarrow> getResponseCache r1 = getResponseCache r"
  by (auto simp: headers_getter_def Let_def getResponseCache_idem split: option.splits sum.splits prod.splits)

lemma status_getter_keeps:
  "status_getter r = Inr (st, r1) \<Longrightarrow> getResponseCache r1 = getResponseCache r"
  by (auto simp: status_getter_def getResponseCache_idem split: option.splits sum.splits prod.splits)

lemma headers_getter_total:
  "getResponseCache r = Inr (g, r') \<Longrightarrow> \<exists>h r1. headers_getter r = Inr (h, r1)"
  by (auto simp: headers_getter_def Let_def split: option.splits)

lemma status_getter_total:
  "getResponseCache r = Inr (g, r') \<Longrightarrow> \<exists>st r1. status_getter r = Inr (st, r1)"
  by (auto simp: status_getter_def split: option.splits)

lemma arrayBuffer_method_cong:
  "getResponseCache r2 = getResponseCache r \<Longrightarrow> arrayBuffer_method r2 = arrayBuffer_method r"
  by (simp add: arrayBuffer_method_def)

lemma text_of_arrayBuffer:
  "arrayBuffer_method r = Inr (bs, r') \<Longrightarrow> text_method decode r = Inr (decode bs, r')"
  by (auto simp: arrayBuffer_method_def text_method_def Response_text_def split: sum.splits prod.splits)

lemma arrayBuffer_method_materialises:
  "arrayBuffer_method r = Inr (bs, r') \<Longrightarrow> \<exists>g rg. getResponseCache r = Inr (g, rg)"
  by (auto simp: arrayBuffer_method_def split: sum.splits prod.splits)

lemma status_after_headers:
  "headers_getter r = Inr (h, r1) \<Longrightarrow> status_getter r = Inr (st, rs) \<Longrightarrow>
   \<exists>r2. status_getter r1 = Inr (st, r2)"
  by (auto simp: headers_getter_def status_getter_def Let_def getResponseCache_idem
      split: option.splits sum.splits prod.splits dest: getResponseCache_shape)

lemma headers_after_arrayBuffer:
  "arrayBuffer_method r = Inr (bs, r') \<Longrightarrow> getResponseCache r = Inr (g, rg) \<Longrightarrow>
   \<exists>r4. headers_getter r' = Inr (g_headers g, r4)"
  by (auto simp: arrayBuffer_method_def headers_getter_def Response_arrayBuffer_def
      getResponseCache_def Let_def
      split: option.splits sum.splits prod.splits if_splits)

section \<open>Properties of the response writer\<close>

lemma async_no_write_after_abort:
  "aborted (Suc t) \<Longrightarrow> fst (writeResponseAsync decode r aborted t) = []"
  by (simp add: writeResponseAsync_def Let_def split: sum.splits prod.splits)

text \<open>
  The steps of \<open>writeResponseAsync\<close> before its second look at the flag, for a response
  whose body can be read: both getters and both resolutions succeed.
\<close>

lemma async_resolution:
  assumes h: "headers_getter r = Inr (h, r1)"
    and st: "status_getter r = Inr (st, rs)"
    and ok: "arrayBuffer_method r = Inr (bs, r')"
  shows "\<exists>r2. status_getter r1 = Inr (st, r2) \<and> arrayBuffer_method r2 = Inr (bs, r')
              \<and> text_method decode r2 = Inr (decode bs, r')"
proof -
  have k1: "getResponseCache r1 = getResponseCache r" using h by (rule headers_getter_keeps)
  from status_after_headers[OF h st] obtain r2 where s: "status_getter r1 = Inr (st, r2)" by blast
  have k2: "getResponseCache r2 = getResponseCache r"
    using status_getter_keeps[OF s] k1 by simp
  have a: "arrayBuffer_method r2 = Inr (bs, r')"
    using arrayBuffer_method_cong[OF k2] ok by simp
  have "text_method decode r2 = Inr (decode bs, r')"
    using a by (rule text_of_arrayBuffer)
  with s a show ?thesis by blast
qed

lemma async_silent:
  assumes ab: "aborted (Suc t)" and ok: "arrayBuffer_method r = Inr (bs, r')"
  shows "writeResponseAsync decode r aborted t = ([], None)"
proof (cases "aborted t")
  case True
  then show ?thesis by (simp add: writeResponseAsync_def)
next
  case False
  from ok obtain g rg where g: "getResponseCache r = Inr (g, rg)"
    using arrayBuffer_method_materialises by blast
  from headers_getter_total[OF g] obtain h r1 where h: "headers_getter r = Inr (h, r1)" by blast
  from status_getter_total[OF g] obtain st rs where st: "status_getter r = Inr (st, rs)" by blast
  from async_resolution[OF h st ok, of decode] obtain r2
    where "status_getter r1 = Inr (st, r2)" "arrayBuffer_method r2 = Inr (bs, r')"
      "text_method decode r2 = Inr (decode bs, r')" by blast
  with False ab h show ?thesis by (simp add: writeResponseAsync_def Let_def)
qed

lemma writeResponseAsync_live:
  assumes live: "\<not> aborted t" "\<not> aborted (Suc t)"
    and h: "headers_getter r = Inr (h, r1)"
    and st: "status_getter r = Inr (st, rs)"
    and ok: "arrayBuffer_method r = Inr (bs, r')"
    and g: "getResponseCache r = Inr (g, rg)"
  shows "writeResponseAsync decode r aborted t =
           ([WriteStatus (toString st)]
            @ map (\<lambda>(key, value). WriteHeader key value) (Headers_forEach (g_headers g))
            @ [End (if resolvesAsText (Headers_get h ''content-type'') then decode bs else bs)],
            None)"
proof -
  from async_resolution[OF h st ok, of decode] obtain r2
    where s: "status_getter r1 = Inr (st, r2)" and a: "arrayBuffer_method r2 = Inr (bs, r')"
      and tx: "text_method decode r2 = Inr (decode bs, r')" by blast
  from headers_after_arrayBuffer[OF ok g] obtain r4
    where h': "headers_getter r' = Inr (g_headers g, r4)" by blast
  show ?thesis
    using live h s a tx h' by (simp add: writeResponseAsync_def Let_def)
qed

lemma handler_returned_aborted:
  "aborted 0 \<Longrightarrow> any_handler_response decode (Returned r) aborted = ([], None)"
  by (simp add: any_handler_response_def viaCache_def writeResponseViaCache_def
      writeResponseAsync_def split: option.splits)

text \<open>
  C1. Once the abort flag is seen set, no write is made. The fast path called with the
  flag set reports the response handled and writes nothing. The async path entered with
  the flag set returns at once; when the flag is set by the time the body has been
  resolved, nothing at all is written, and where the body could be resolved the function
  returns normally, with no error. The route callback, whichever path it takes, writes
  nothing for a returned response when the flag is set as it runs, and nothing for a
  promised response when the flag is set as the promise resolves.
\<close>

theorem abort_suppresses_every_write:
  "writeResponseViaCache cache True = (True, [])
   \<and> (aborted t \<longrightarrow> writeResponseAsync decode r aborted t = ([], None))
   \<and> (aborted (Suc t) \<longrightarrow> fst (writeResponseAsync decode r aborted t) = [])
   \<and> (aborted (Suc t) \<and> arrayBuffer_method r = Inr (bs, r') \<longrightarrow>
         writeResponseAsync decode r aborted t = ([], None))
   \<and> (aborted 0 \<longrightarrow> any_handler_response decode (Returned r) aborted = ([], None))
   \<and> (aborted 1 \<longrightarrow> any_handler_response decode (Promised (Inr r)) aborted = ([], None))"
  using async_no_write_after_abort[of aborted t decode r] async_silent[of aborted t r bs r' decode]
    handler_returned_aborted[of aborted decode r]
  by (simp add: writeResponseViaCache_def writeResponseAsync_def any_handler_response_def)

theorem abort_suppresses_every_write_witness:
  "(\<lambda>t. 0 < t) (Suc 0)
   \<and> arrayBuffer_method (LightweightResponse_new (Some (BodyStream (Inr ''late''))) None)
       = Inr (''late'',
              \<lparr>body_priv = Some (BodyStream (Inr ''late'')), init_priv = None,
               responseCache = Some \<lparr>g_status = 200, g_headers = [],
                                       g_body = Some (Inr ''late''), g_bodyUsed = True\<rparr>,
               cacheKey = None\<rparr>)
   \<and> writeResponseAsync (\<lambda>b. b) (LightweightResponse_new (Some (BodyStream (Inr ''late''))) None)
       (\<lambda>t. 0 < t) 0 = ([], None)
   \<and> writeResponseViaCache (200, BodyString ''hi'', CRecord []) True = (True, [])"
proof -
  have ok: "arrayBuffer_method (LightweightResponse_new (Some (BodyStream (Inr ''late''))) None)
       = Inr (''late'',
              \<lparr>body_priv = Some (BodyStream (Inr ''late'')), init_priv = None,
               responseCache = Some \<lparr>g_status = 200, g_headers = [],
                                       g_body = Some (Inr ''late''), g_bodyUsed = True\<rparr>,
               cacheKey = None\<rparr>)"
    by code_simp
  have late: "(\<lambda>t::nat. 0 < t) (Suc 0)" by simp
  from abort_suppresses_every_write
         [where cache = "(200, BodyString ''hi'', CRecord [])" and aborted = "\<lambda>t. 0 < t"
            and t = 0 and decode = "\<lambda>b. b"
            and r = "LightweightResponse_new (Some (BodyStream (Inr ''late''))) None"
            and bs = "''late''"]
       ok late
  show ?thesis by blast
qed

lemma Headers_forEach_Nil [simp]: "Headers_forEach [] = []"
  by (simp add: Headers_forEach_def)

lemma Headers_new_Nil [simp]: "Headers_new [] = []"
  by (simp add: Headers_new_def)

lemma new_cache:
  "cached_kind body \<Longrightarrow>
   \<forall>i ps. init = Some i \<longrightarrow> init_headers i \<noteq> Some (InitRecord ps) \<Longrightarrow>
   \<exists>st ch. cacheKey (LightweightResponse_new body init)
        = Some (st, (case body of None \<Rightarrow> BodyString [] | Some b \<Rightarrow> b), ch)
      \<and> writeHeaders ch = map (\<lambda>(key, value). WriteHeader key value) (Headers_forEach (Headers_of_init init))
      \<and> (\<exists>r1. headers_getter (LightweightResponse_new body init) = Inr (Headers_of_init init, r1))
      \<and> (\<exists>rs. status_getter (LightweightResponse_new body init) = Inr (st, rs))"
  by (auto simp: LightweightResponse_new_def headers_getter_def status_getter_def writeHeaders_def
      Headers_of_init_def Let_def
      split: option.splits HeadersInit.splits)

lemma new_arrayBuffer:
  "arrayBuffer_method (LightweightResponse_new body init) = Inr (bs, r') \<Longrightarrow>
   \<exists>g rg. getResponseCache (LightweightResponse_new body init) = Inr (g, rg)
     \<and> GlobalResponse_new body init = Inr g
     \<and> (case body of None \<Rightarrow> bs = [] | Some b \<Rightarrow> body_bytes b = Inr bs)"
  by (auto simp: arrayBuffer_method_def getResponseCache_def LightweightResponse_new_def Let_def
      GlobalResponse_new_def Response_arrayBuffer_def
      split: sum.splits option.splits if_splits)

lemma global_headers:
  "GlobalResponse_new body init = Inr g \<Longrightarrow>
   (\<forall>s. body = Some (BodyString s) \<longrightarrow> Headers_get (Headers_of_init init) ''content-type'' \<noteq> None) \<Longrightarrow>
   spec_fast_path_variant body \<Longrightarrow>
   g_headers g = Headers_of_init init"
  by (auto simp: GlobalResponse_new_def Let_def spec_fast_path_variant_def body_content_type_def
      split: if_splits option.splits BodyInit.splits)

text \<open>
  C2, as the code has it. The fast path and the async path make the same writes for a
  response whose body is None, Text or Bytes on a connection that is live at both checks,
  provided that the caller's headers are absent, a \<open>Headers\<close> object or an array of
  pairs (not a plain record), that a Text body comes with a content type supplied by the
  caller, that the standard constructor accepts the response so that its body can be
  read, and that a body sent under a textual content type is left unchanged by UTF-8
  decoding.
\<close>

theorem fast_and_async_writes_agree:
  assumes live: "\<not> aborted t" "\<not> aborted (Suc t)"
    and variant: "spec_fast_path_variant body"
    and hdrs: "\<forall>i ps. init = Some i \<longrightarrow> init_headers i \<noteq> Some (InitRecord ps)"
    and ctype: "\<forall>s. body = Some (BodyString s) \<longrightarrow>
                  Headers_get (Headers_of_init init) ''content-type'' \<noteq> None"
    and ok: "arrayBuffer_method (LightweightResponse_new body init) = Inr (bs, r')"
    and utf8: "resolvesAsText (Headers_get (Headers_of_init init) ''content-type'') \<longrightarrow> decode bs = bs"
  shows "\<exists>cache calls.
           cacheKey (LightweightResponse_new body init) = Some cache
         \<and> writeResponseViaCache cache (aborted t) = (True, calls)
         \<and> writeResponseAsync decode (LightweightResponse_new body init) aborted t = (calls, None)"
proof -
  let ?r = "LightweightResponse_new body init"
  have ck: "cached_kind body"
    using variant by (auto simp: spec_fast_path_variant_def cached_kind_def split: option.splits BodyInit.splits)
  from new_cache[OF ck hdrs] obtain st ch r1 rs where
    c: "cacheKey ?r = Some (st, (case body of None \<Rightarrow> BodyString [] | Some b \<Rightarrow> b), ch)"
    and wh: "writeHeaders ch = map (\<lambda>(key, value). WriteHeader key value) (Headers_forEach (Headers_of_init init))"
    and h: "headers_getter ?r = Inr (Headers_of_init init, r1)"
    and s: "status_getter ?r = Inr (st, rs)" by blast
  from new_arrayBuffer[OF ok] obtain g rg where
    g: "getResponseCache ?r = Inr (g, rg)" and gn: "GlobalResponse_new body init = Inr g"
    and payload: "(case body of None \<Rightarrow> bs = [] | Some b \<Rightarrow> body_bytes b = Inr bs)" by blast
  have gh: "g_headers g = Headers_of_init init"
    using global_headers[OF gn ctype variant] .
  have async: "writeResponseAsync decode ?r aborted t =
      ([WriteStatus (toString st)]
       @ map (\<lambda>(key, value). WriteHeader key value) (Headers_forEach (Headers_of_init init))
       @ [End bs], None)"
    using writeResponseAsync_live[OF live h s ok g, of decode] utf8 gh by auto
  have fast: "writeResponseViaCache (st, (case body of None \<Rightarrow> BodyString [] | Some b \<Rightarrow> b), ch) (aborted t) =
      (True, [WriteStatus (toString st)]
       @ map (\<lambda>(key, value). WriteHeader key value) (Headers_forEach (Headers_of_init init))
       @ [End bs])"
    using variant payload live(1) wh
    by (auto simp: writeResponseViaCache_def spec_fast_path_variant_def body_bytes_def
        split: option.splits BodyInit.splits)
  from c fast async show ?thesis by blast
qed

theorem fast_and_async_writes_agree_witness:
  "\<not> (\<lambda>t::nat. False) 0 \<and> \<not> (\<lambda>t::nat. False) (Suc 0)
   \<and> spec_fast_path_variant (Some (BodyString ''{}''))
   \<and> Headers_get (Headers_of_init
          (Some \<lparr>init_status = Some 201,
                 init_headers = Some (InitHeaders [(''content-type'', ''application/json'')])\<rparr>))
        ''content-type'' = Some ''application/json''
   \<and> (\<exists>r'. arrayBuffer_method
          (LightweightResponse_new (Some (BodyString ''{}''))
            (Some \<lparr>init_status = Some 201,
                   init_headers = Some (InitHeaders [(''content-type'', ''application/json'')])\<rparr>))
        = Inr (''{}'', r'))
   \<and> (\<exists>cache.
         cacheKey (LightweightResponse_new (Some (BodyString ''{}''))
            (Some \<lparr>init_status = Some 201,
                   init_headers = Some (InitHeaders [(''content-type'', ''application/json'')])\<rparr>))
           = Some cache
       \<and> writeResponseViaCache cache False
           = (True, [WriteStatus ''201'', WriteHeader ''content-type'' ''application/json'', End ''{}''])
       \<and> writeResponseAsync (\<lambda>b. b)
            (LightweightResponse_new (Some (BodyString ''{}''))
              (Some \<lparr>init_status = Some 201,
                     init_headers = Some (InitHeaders [(''content-type'', ''application/json'')])\<rparr>))
            (\<lambda>t. False) 0
           = ([WriteStatus ''201'', WriteHeader ''content-type'' ''application/json'', End ''{}''], None))"
proof -
  let ?init = "Some \<lparr>init_status = Some 201,
                 init_headers = Some (InitHeaders [(''content-type'', ''application/json'')])\<rparr>"
  let ?r = "LightweightResponse_new (Some (BodyString ''{}'')) ?init"
  have live: "\<not> (\<lambda>t::nat. False) 0" "\<not> (\<lambda>t::nat. False) (Suc 0)" by simp_all
  have v: "spec_fast_path_variant (Some (BodyString ''{}''))" by code_simp
  have hd: "\<forall>i ps. ?init = Some i \<longrightarrow> init_headers i \<noteq> Some (InitRecord ps)" by auto
  have ct: "Headers_get (Headers_of_init ?init) ''content-type'' = Some ''application/json''"
    by code_simp
  then have ct': "\<forall>s. Some (BodyString ''{}'') = Some (BodyString s) \<longrightarrow>
      Headers_get (Headers_of_init ?init) ''content-type'' \<noteq> None" by simp
  have ok: "arrayBuffer_method ?r = Inr (''{}'', snd (projr (arrayBuffer_method ?r)))"
    by code_simp
  have u: "resolvesAsText (Headers_get (Headers_of_init ?init) ''content-type'') \<longrightarrow>
             (\<lambda>b. b) ''{}'' = ''{}''" by simp
  from fast_and_async_writes_agree[where aborted = "\<lambda>t. False" and t = 0 and decode = "\<lambda>b. b" and bs = "''{}''",
          OF live v hd ct' ok u]
  obtain cache calls where c: "cacheKey ?r = Some cache"
    and f: "writeResponseViaCache cache False = (True, calls)"
    and a: "writeResponseAsync (\<lambda>b. b) ?r (\<lambda>t. False) 0 = (calls, None)" by blast
  have a': "writeResponseAsync (\<lambda>b. b) ?r (\<lambda>t. False) 0
      = ([WriteStatus ''201'', WriteHeader ''content-type'' ''application/json'', End ''{}''], None)"
    by code_simp
  from a a' have "calls = [WriteStatus ''201'', WriteHeader ''content-type'' ''application/json'', End ''{}'']"
    by simp
  with c f a show ?thesis using v ct ok by blast
qed

text \<open>
  Without those conditions the two paths differ. A \<open>Uint8Array\<close> body with the header
  record \<open>{"Content-Type": "application/octet-stream"}\<close>: the fast path writes the
  record's key as it is spelt, the async path writes the lower-cased name that the
  \<open>Headers\<close> object holds.
\<close>

theorem record_header_names_counterexample:
  "cacheKey (LightweightResponse_new (Some (BodyUint8Array ''Hello''))
        (Some \<lparr>init_status = Some 200,
               init_headers = Some (InitRecord [(''Content-Type'', ''application/octet-stream'')])\<rparr>))
     = Some (200, BodyUint8Array ''Hello'', CRecord [(''Content-Type'', ''application/octet-stream'')])
   \<and> writeResponseViaCache (200, BodyUint8Array ''Hello'', CRecord [(''Content-Type'', ''application/octet-stream'')]) False
     = (True, [WriteStatus ''200'', WriteHeader ''Content-Type'' ''application/octet-stream'', End ''Hello''])
   \<and> writeResponseAsync (\<lambda>b. b)
       (LightweightResponse_new (Some (BodyUint8Array ''Hello''))
        (Some \<lparr>init_status = Some 200,
               init_headers = Some (InitRecord [(''Content-Type'', ''application/octet-stream'')])\<rparr>))
       (\<lambda>t. False) 0
     = ([WriteStatus ''200'', WriteHeader ''content-type'' ''application/octet-stream'', End ''Hello''], None)
   \<and> snd (writeResponseViaCache (200, BodyUint8Array ''Hello'', CRecord [(''Content-Type'', ''application/octet-stream'')]) False)
     \<noteq> fst (writeResponseAsync (\<lambda>b. b)
       (LightweightResponse_new (Some (BodyUint8Array ''Hello''))
        (Some \<lparr>init_status = Some 200,
               init_headers = Some (InitRecord [(''Content-Type'', ''application/octet-stream'')])\<rparr>))
       (\<lambda>t. False) 0)"
  by code_simp

text \<open>
  C3, as the code has it. In the async path the body is resolved as text exactly when the
  content type is present and starts with \<open>text/\<close>, starts with \<open>application/json\<close>, or
  contains \<open>+json\<close> anywhere; otherwise the raw bytes are written. Stated for a live
  connection and a response whose body can be read: the payload of the final write is the
  decoded text in the first case and the bytes themselves in the second.
\<close>

theorem async_resolves_text_by_content_type:
  assumes live: "\<not> aborted t" "\<not> aborted (Suc t)"
    and h: "headers_getter r = Inr (h, r1)"
    and ok: "arrayBuffer_method r = Inr (bs, r')"
  shows "\<exists>calls. writeResponseAsync decode r aborted t =
           (calls @ [End (if (\<exists>ct. Headers_get h ''content-type'' = Some ct \<and>
                               (prefix ''text/'' ct \<or> prefix ''application/json'' ct \<or> sublist ''+json'' ct))
                          then decode bs else bs)], None)"
proof -
  from ok obtain g rg where g: "getResponseCache r = Inr (g, rg)"
    using arrayBuffer_method_materialises by blast
  from status_getter_total[OF g] obtain st rs where st: "status_getter r = Inr (st, rs)" by blast
  show ?thesis
    using writeResponseAsync_live[OF live h st ok g, of decode]
    by (simp add: resolvesAsText_iff)
qed

theorem async_resolves_text_by_content_type_witness:
  "\<not> (\<lambda>t::nat. False) 0 \<and> \<not> (\<lambda>t::nat. False) (Suc 0)
   \<and> headers_getter
        (LightweightResponse_new (Some (BodyUint8Array ''{}''))
          (Some \<lparr>init_status = None,
                 init_headers = Some (InitArray [(''content-type'', ''application/ld+json; charset=utf-8'')])\<rparr>))
      = Inr ([(''content-type'', ''application/ld+json; charset=utf-8'')],
             LightweightResponse_new (Some (BodyUint8Array ''{}''))
          (Some \<lparr>init_status = None,
                 init_headers = Some (InitArray [(''content-type'', ''application/ld+json; charset=utf-8'')])\<rparr>))
   \<and> (\<exists>r'. arrayBuffer_method
        (LightweightResponse_new (Some (BodyUint8Array ''{}''))
          (Some \<lparr>init_status = None,
                 init_headers = Some (InitArray [(''content-type'', ''application/ld+json; charset=utf-8'')])\<rparr>))
      = Inr (''{}'', r'))
   \<and> (\<exists>calls. writeResponseAsync (\<lambda>b. ''TEXT'')
        (LightweightResponse_new (Some (BodyUint8Array ''{}''))
          (Some \<lparr>init_status = None,
                 init_headers = Some (InitArray [(''content-type'', ''application/ld+json; charset=utf-8'')])\<rparr>))
        (\<lambda>t. False) 0 = (calls @ [End ''TEXT''], None))"
proof -
  let ?r = "LightweightResponse_new (Some (BodyUint8Array ''{}''))
          (Some \<lparr>init_status = None,
                 init_headers = Some (InitArray [(''content-type'', ''application/ld+json; charset=utf-8'')])\<rparr>)"
  let ?h = "[(''content-type'', ''application/ld+json; charset=utf-8'')]"
  have h: "headers_getter ?r = Inr (?h, ?r)" by code_simp
  have ok: "arrayBuffer_method ?r = Inr (''{}'', snd (projr (arrayBuffer_method ?r)))"
    by code_simp
  have c: "resolvesAsText (Headers_get ?h ''content-type'')" by code_simp
  have live: "\<not> (\<lambda>t::nat. False) 0" "\<not> (\<lambda>t::nat. False) (Suc 0)" by simp_all
  from async_resolves_text_by_content_type[OF live h ok, of "\<lambda>b. ''TEXT''"]
    c[unfolded resolvesAsText_iff]
  have "\<exists>calls. writeResponseAsync (\<lambda>b. ''TEXT'') ?r (\<lambda>t. False) 0 = (calls @ [End ''TEXT''], None)"
    by simp
  with h ok show ?thesis by blast
qed

text \<open>
  The specification's wording fails in both directions: a JSON-LD type with a charset parameter
  contains \<open>+json\<close> without ending in it and is resolved as text, and a type that
  mentions \<open>application/json\<close> only in a parameter is resolved as bytes.
\<close>

theorem content_type_sniff_counterexample:
  "writeResponseAsync (\<lambda>b. ''TEXT'')
     (LightweightResponse_new (Some (BodyUint8Array ''{}''))
        (Some \<lparr>init_status = None,
               init_headers = Some (InitArray [(''content-type'', ''application/ld+json; charset=utf-8'')])\<rparr>))
     (\<lambda>t. False) 0
   = ([WriteStatus ''200'', WriteHeader ''content-type'' ''application/ld+json; charset=utf-8'', End ''TEXT''], None)
   \<and> \<not> spec_resolvesAsText (Some ''application/ld+json; charset=utf-8'')
   \<and> writeResponseAsync (\<lambda>b. ''TEXT'')
     (LightweightResponse_new (Some (BodyUint8Array ''{}''))
        (Some \<lparr>init_status = None,
               init_headers = Some (InitArray [(''content-type'', ''multipart/related; type=application/json'')])\<rparr>))
     (\<lambda>t. False) 0
   = ([WriteStatus ''200'', WriteHeader ''content-type'' ''multipart/related; type=application/json'', End ''{}''], None)
   \<and> spec_resolvesAsText (Some ''multipart/related; type=application/json'')"
  by code_simp






text \<open>
  C5 at the input \<open>new Response("plain text")\<close>: the captured default headers are the
  empty record, and the fast path sends the status and the body with no content type.
\<close>

theorem default_headers_carry_no_content_type:
  "cacheKey (LightweightResponse_new (Some (BodyString ''plain text'')) None)
     = Some (200, BodyString ''plain text'', CRecord [])
   \<and> any_handler_response decode
       (Returned (LightweightResponse_new (Some (BodyString ''plain text'')) None)) (\<lambda>t. False)
     = ([WriteStatus ''200'', End ''plain text''], None)"
  by (simp add: LightweightResponse_new_def cached_kind_def any_handler_response_def viaCache_def
       writeResponseViaCache_def writeHeaders_def toString.simps digit_char_def)

section \<open>Properties of the lazy request\<close>

lemma getRequestCache_again:
  "getRequestCache accepts s = (Inr r, s') \<Longrightarrow> getRequestCache accepts s' = (Inr r, s')"
  by (cases s)
     (auto simp: getRequestCache_def LightweightRequest_new_def Let_def
       split: option.splits sum.splits if_splits prod.splits)

lemma getRequestCache_inv:
  assumes "memo_inv s" and "getRequestCache accepts s = (res, s')"
  shows "memo_inv s'
       \<and> (\<forall>r. res = Inr r \<longrightarrow> requestCacheKey (fst s') = Some r)
       \<and> (\<forall>r. requestCacheKey (fst s) = Some r \<longrightarrow> requestCacheKey (fst s') = Some r)
       \<and> body_reads (snd s') = body_reads (snd s)"
  using assms
  by (cases s)
     (auto simp: getRequestCache_def LightweightRequest_new_def Let_def memo_inv_def
       split: option.splits sum.splits if_splits prod.splits)

lemma Request_text_inv:
  assumes "memo_inv (self, st)" and "requestCacheKey self = Some r" and "Request_text r st = (res, st')"
  shows "memo_inv (self, st')"
  using assms
  by (auto simp: Request_text_def memo_inv_def split: option.splits if_splits)

lemma text_accessor_inv:
  assumes "memo_inv s" and "text_accessor accepts s = (res, s')"
  shows "memo_inv s'
       \<and> (\<forall>r. requestCacheKey (fst s) = Some r \<longrightarrow> requestCacheKey (fst s') = Some r)"
proof -
  obtain g s1 where Pair: "getRequestCache accepts s = (g, s1)"
    by (cases "getRequestCache accepts s")
  note inv1 = getRequestCache_inv[OF assms(1) Pair]
  show ?thesis
  proof (cases g)
    case (Inl e)
    with Pair assms(2) have "s' = s1" by (simp add: text_accessor_def)
    with inv1 show ?thesis by simp
  next
    case (Inr r)
    obtain self st where s1: "s1 = (self, st)" by (cases s1)
    obtain res' st' where rt: "Request_text r st = (res', st')" by (cases "Request_text r st")
    from Pair Inr s1 rt assms(2) have s': "s' = (self, st')" by (simp add: text_accessor_def)
    from inv1 Inr s1 have ck: "requestCacheKey self = Some r" and i: "memo_inv (self, st)" by auto
    from Request_text_inv[OF i ck rt] inv1 s1 s' show ?thesis by simp
  qed
qed

lemma uses_inv:
  "memo_inv s \<Longrightarrow> uses accepts us s = (rs, s') \<Longrightarrow>
   memo_inv s'
   \<and> (\<forall>r. requestCacheKey (fst s) = Some r \<longrightarrow> requestCacheKey (fst s') = Some r)
   \<and> (\<forall>r. Inr r \<in> set rs \<longrightarrow> requestCacheKey (fst s') = Some r)"
proof (induction us arbitrary: s rs s')
  case Nil
  then show ?case by simp
next
  case (Cons u us)
  show ?case
  proof (cases u)
    case Promote
    obtain res s1 where g: "getRequestCache accepts s = (res, s1)" by (cases "getRequestCache accepts s")
    obtain rs1 s2 where u1: "uses accepts us s1 = (rs1, s2)" by (cases "uses accepts us s1")
    from Cons.prems(2) Promote g u1 have eq: "rs = res # rs1" "s' = s2" by simp_all
    note i1 = getRequestCache_inv[OF Cons.prems(1) g]
    from i1 have m1: "memo_inv s1" by simp
    note i2 = Cons.IH[OF m1 u1]
    from i1 i2 eq show ?thesis by auto
  next
    case ReadText
    obtain res s1 where g: "text_accessor accepts s = (res, s1)" by (cases "text_accessor accepts s")
    from Cons.prems(2) ReadText g have u1: "uses accepts us s1 = (rs, s')" by simp
    note i1 = text_accessor_inv[OF Cons.prems(1) g]
    from i1 have m1: "memo_inv s1" by simp
    note i2 = Cons.IH[OF m1 u1]
    from i1 i2 show ?thesis by auto
  qed
qed

lemma memo_inv_fresh: "memo_inv (createLazyRequest m u hs b, empty_store)"
  by (simp add: memo_inv_def createLazyRequest_def empty_store_def)

lemma memo_inv_bounds:
  "memo_inv s \<Longrightarrow> body_reads (snd s) \<le> 1 \<and> card (dom (objects (snd s))) \<le> 1"
  by (auto simp: memo_inv_def split: option.splits)

text \<open>
  C6. Promotion is idempotent: a promotion that returns an object leaves a state in which
  the next promotion returns the same object and changes nothing. Over any sequence of
  promotions and body reads of a freshly created descriptor, all promotions that return
  an object return the same one, the body stream is read at most once, and at most one
  request object is ever built.
\<close>

theorem materialisation_is_memoised:
  "(getRequestCache accepts s = (Inr r, s') \<longrightarrow> getRequestCache accepts s' = (Inr r, s'))
   \<and> (uses accepts us (createLazyRequest m u hs b, empty_store) = (rs, s'') \<longrightarrow>
        (\<forall>r1 r2. Inr r1 \<in> set rs \<and> Inr r2 \<in> set rs \<longrightarrow> r1 = r2)
        \<and> body_reads (snd s'') \<le> 1
        \<and> card (dom (objects (snd s''))) \<le> 1)"
proof (intro conjI impI)
  assume "getRequestCache accepts s = (Inr r, s')"
  then show "getRequestCache accepts s' = (Inr r, s')" by (rule getRequestCache_again)
next
  assume a: "uses accepts us (createLazyRequest m u hs b, empty_store) = (rs, s'')"
  note i = uses_inv[OF memo_inv_fresh a]
  from i have k: "\<forall>r. Inr r \<in> set rs \<longrightarrow> requestCacheKey (fst s'') = Some r" by blast
  show "\<forall>r1 r2. Inr r1 \<in> set rs \<and> Inr r2 \<in> set rs \<longrightarrow> r1 = r2"
  proof (intro allI impI)
    fix r1 r2 assume "Inr r1 \<in> set rs \<and> Inr r2 \<in> set rs"
    with k have "requestCacheKey (fst s'') = Some r1" "requestCacheKey (fst s'') = Some r2" by blast+
    then show "r1 = r2" by simp
  qed
  from i memo_inv_bounds[of s''] show "body_reads (snd s'') \<le> 1" by simp
  from i memo_inv_bounds[of s''] show "card (dom (objects (snd s''))) \<le> 1" by simp
qed


theorem materialisation_is_memoised_witness:
  "getRequestCache (\<lambda>obj. True)
     (createLazyRequest ''POST'' ''http://localhost/upload'' [(''host'', ''localhost'')] (Some BridgeReadable),
      empty_store)
   = (Inr 0, snd (getRequestCache (\<lambda>obj. True)
     (createLazyRequest ''POST'' ''http://localhost/upload'' [(''host'', ''localhost'')] (Some BridgeReadable),
      empty_store)))
   \<and> getRequestCache (\<lambda>obj. True) (snd (getRequestCache (\<lambda>obj. True)
     (createLazyRequest ''POST'' ''http://localhost/upload'' [(''host'', ''localhost'')] (Some BridgeReadable),
      empty_store)))
   = (Inr 0, snd (getRequestCache (\<lambda>obj. True)
     (createLazyRequest ''POST'' ''http://localhost/upload'' [(''host'', ''localhost'')] (Some BridgeReadable),
      empty_store)))
   \<and> fst (uses (\<lambda>obj. True) [Promote, ReadText, Promote, ReadText, Promote]
      (createLazyRequest ''POST'' ''http://localhost/upload'' [(''host'', ''localhost'')] (Some BridgeReadable),
       empty_store)) = [Inr 0, Inr 0, Inr 0]
   \<and> body_reads (snd (snd (uses (\<lambda>obj. True) [Promote, ReadText, Promote, ReadText, Promote]
      (createLazyRequest ''POST'' ''http://localhost/upload'' [(''host'', ''localhost'')] (Some BridgeReadable),
       empty_store)))) = 1
   \<and> card (dom (objects (snd (snd (uses (\<lambda>obj. True) [Promote, ReadText, Promote, ReadText, Promote]
      (createLazyRequest ''POST'' ''http://localhost/upload'' [(''host'', ''localhost'')] (Some BridgeReadable),
       empty_store)))))) \<le> 1"
proof -
  let ?s0 = "(createLazyRequest ''POST'' ''http://localhost/upload'' [(''host'', ''localhost'')] (Some BridgeReadable),
      empty_store)"
  let ?us = "[Promote, ReadText, Promote, ReadText, Promote]"
  have first: "getRequestCache (\<lambda>obj. True) ?s0 = (Inr 0, snd (getRequestCache (\<lambda>obj. True) ?s0))"
    by (simp add: getRequestCache_def LightweightRequest_new_def createLazyRequest_def
        empty_store_def Let_def)
  have run: "uses (\<lambda>obj. True) ?us ?s0
      = (fst (uses (\<lambda>obj. True) ?us ?s0), snd (uses (\<lambda>obj. True) ?us ?s0))"
    by simp
  have results: "fst (uses (\<lambda>obj. True) ?us ?s0) = [Inr 0, Inr 0, Inr 0]"
    by (simp add: getRequestCache_def LightweightRequest_new_def text_accessor_def Request_text_def
        createLazyRequest_def empty_store_def Let_def)
  have reads: "body_reads (snd (snd (uses (\<lambda>obj. True) ?us ?s0))) = 1"
    by (simp add: getRequestCache_def LightweightRequest_new_def text_accessor_def Request_text_def
        createLazyRequest_def empty_store_def Let_def)
  from materialisation_is_memoised
         [where accepts = "\<lambda>obj. True" and s = ?s0 and r = 0
            and s' = "snd (getRequestCache (\<lambda>obj. True) ?s0)" and us = ?us
            and m = "''POST''" and u = "''http://localhost/upload''"
            and hs = "[(''host'', ''localhost'')]" and b = "Some BridgeReadable"
            and rs = "fst (uses (\<lambda>obj. True) ?us ?s0)"]
       first run results reads
  show ?thesis by blast
qed

section \<open>Properties of the route callback and the body stream bridge\<close>

text \<open>
  C10. The route callback upper-cases the method the transport reports. For GET, HEAD
  and OPTIONS the descriptor gets a null body handle and no bridge is created; for every
  other method a bridge is created, its data handler is registered, and its readable
  side is the descriptor's body handle.
\<close>

theorem body_bridge_only_for_body_methods:
  "(bodyKey (fst (any_handler_request protocol req new_HttpResponse)) = None)
     = (toUpperCase (req_method req) = ''GET'' \<or> toUpperCase (req_method req) = ''HEAD''
        \<or> toUpperCase (req_method req) = ''OPTIONS'')
   \<and> (bridge (snd (any_handler_request protocol req new_HttpResponse)) = None)
     = (toUpperCase (req_method req) = ''GET'' \<or> toUpperCase (req_method req) = ''HEAD''
        \<or> toUpperCase (req_method req) = ''OPTIONS'')
   \<and> onData_handler (snd (any_handler_request protocol req new_HttpResponse))
     = (bodyKey (fst (any_handler_request protocol req new_HttpResponse)) = Some BridgeReadable)"
  by (simp add: any_handler_request_def Let_def getBody_def new_HttpResponse_def createLazyRequest_def)

theorem body_bridge_only_for_body_methods_witness:
  "toUpperCase ''head'' = ''HEAD''
   \<and> bodyKey (fst (any_handler_request ''http''
        \<lparr>req_method = ''head'', req_url = ''/'', req_query = [], req_headers = [(''host'', ''localhost'')]\<rparr>
        new_HttpResponse)) = None
   \<and> bridge (snd (any_handler_request ''http''
        \<lparr>req_method = ''head'', req_url = ''/'', req_query = [], req_headers = [(''host'', ''localhost'')]\<rparr>
        new_HttpResponse)) = None
   \<and> toUpperCase ''put'' = ''PUT''
   \<and> bodyKey (fst (any_handler_request ''http''
        \<lparr>req_method = ''put'', req_url = ''/'', req_query = [], req_headers = [(''host'', ''localhost'')]\<rparr>
        new_HttpResponse)) = Some BridgeReadable
   \<and> onData_handler (snd (any_handler_request ''http''
        \<lparr>req_method = ''put'', req_url = ''/'', req_query = [], req_headers = [(''host'', ''localhost'')]\<rparr>
        new_HttpResponse))"
proof -
  have up: "toUpperCase ''head'' = ''HEAD''" "toUpperCase ''put'' = ''PUT''" by code_simp+
  have put: "bodyKey (fst (any_handler_request ''http''
        \<lparr>req_method = ''put'', req_url = ''/'', req_query = [], req_headers = [(''host'', ''localhost'')]\<rparr>
        new_HttpResponse)) = Some BridgeReadable" by code_simp
  from body_bridge_only_for_body_methods
         [of "''http''" "\<lparr>req_method = ''head'', req_url = ''/'', req_query = [], req_headers = [(''host'', ''localhost'')]\<rparr>"]
       body_bridge_only_for_body_methods
         [of "''http''" "\<lparr>req_method = ''put'', req_url = ''/'', req_query = [], req_headers = [(''host'', ''localhost'')]\<rparr>"]
       up put
  show ?thesis by simp
qed

text \<open>
  C9 at a POST request. \<open>getBody\<close> registers the handler that aborts the bridge's writer,
  and the route callback then registers its flag-setting handler on the same response,
  which takes the other's place. When the transport reports the abort, only the flag is
  set: the stream is not errored and a pending read stays pending. With the handler of
  \<open>getBody\<close> alone the same notification rejects the read.
\<close>

theorem abort_does_not_reach_the_bridge:
  "onAborted_handler (snd (any_handler_request ''http''
       \<lparr>req_method = ''post'', req_url = ''/upload'', req_query = [], req_headers = [(''host'', ''localhost'')]\<rparr>
       new_HttpResponse)) = Some SetAborted
   \<and> consumer_read (abort_notification (snd (any_handler_request ''http''
       \<lparr>req_method = ''post'', req_url = ''/upload'', req_query = [], req_headers = [(''host'', ''localhost'')]\<rparr>
       new_HttpResponse))) = Pending
   \<and> aborted_flag (abort_notification (snd (any_handler_request ''http''
       \<lparr>req_method = ''post'', req_url = ''/upload'', req_query = [], req_headers = [(''host'', ''localhost'')]\<rparr>
       new_HttpResponse)))
   \<and> consumer_read (abort_notification (snd (getBody new_HttpResponse))) = Rejected"
  by code_simp

section \<open>Properties of WebSocket sessions\<close>



text \<open>
  C8 at a session whose \<open>onMessage\<close> (or \<open>onClose\<close>) callback throws: the error leaves
  the \<open>message\<close> (or \<open>close\<close>) callback; the socket is not ended with 1011 and nothing is
  logged. The \<open>open\<close> callback does catch what \<open>onOpen\<close> throws, logs it and ends the
  socket with 1011.
\<close>

theorem message_callback_error_escapes:
  "ws_message (\<lambda>b. b)
     \<lparr>ws_url = ''http://localhost/ws'', ws_headers = [],
      ws_events = Some \<lparr>onOpen = None, onMessage = Some (\<lambda>m. ([], Some (Thrown ''boom''))),
                         onClose = Some (\<lambda>code reason. ([], Some (Thrown ''boom''))), onError = None\<rparr>,
      ws_context = None\<rparr> ''hi'' True
   = ([OnMessageCalled (BinaryData ''hi'')], Some (Thrown ''boom''))
   \<and> ws_close (\<lambda>b. b)
     \<lparr>ws_url = ''http://localhost/ws'', ws_headers = [],
      ws_events = Some \<lparr>onOpen = None, onMessage = Some (\<lambda>m. ([], Some (Thrown ''boom''))),
                         onClose = Some (\<lambda>code reason. ([], Some (Thrown ''boom''))), onError = None\<rparr>,
      ws_context = None\<rparr> 1000 ''bye''
   = ([OnCloseCalled 1000 ''bye''], Some (Thrown ''boom''))
   \<and> fst (ws_open (\<lambda>u. Inr ''/ws'')
        (\<lambda>reg req. (Inl (Thrown ''not called''), reg))
        [''/ws'' \<mapsto> (\<lambda>c. Inr \<lparr>onOpen = Some ([], Some (Thrown ''boom'')), onMessage = None,
                                   onClose = None, onError = None\<rparr>)]
        \<lparr>ws_url = ''http://localhost/ws'', ws_headers = [], ws_events = None, ws_context = None\<rparr>)
   = ([HandlerCalled, OnOpenCalled, ConsoleError (Thrown ''boom''), WsEnd 1011 ''Internal Error''], None)"
  by (simp add: ws_message_def ws_close_def ws_open_def open_with_handler_def caught_def Let_def)

text \<open>
  The positive path, for comparison: with the \<open>upgradeWebSocket\<close> middleware as the
  application, the synthetic pass registers the handler, the second lookup finds it, and
  \<open>onOpen\<close> runs.
\<close>

lemma registration_pass_opens_session:
  "fst (ws_open (\<lambda>u. Inr ''/ws'')
        (upgradeWebSocket (\<lambda>u. Inr ''/ws'')
           (\<lambda>c. Inr \<lparr>onOpen = Some ([WsSend ''Welcome!''], None), onMessage = None,
                         onClose = None, onError = None\<rparr>))
        Map.empty
        \<lparr>ws_url = ''http://localhost/ws'', ws_headers = [], ws_events = None, ws_context = None\<rparr>)
   = ([AppFetch (createLazyRequest ''GET'' ''http://localhost/ws'' [] None),
       HandlerCalled, OnOpenCalled, WsSend ''Welcome!''], None)"
  by (simp add: ws_open_def open_with_handler_def upgradeWebSocket_def createLazyRequest_def
      status_getter_def LightweightResponse_new_def cached_kind_def Let_def)

text \<open>Chunks delivered to the bridge are read in arrival order, then the end is seen.\<close>

lemma bridge_delivers_in_order:
  "consumer_read (deliver_chunk c2 True (deliver_chunk c1 False (snd (getBody new_HttpResponse))))
     = Chunk c1"
  by (simp add: consumer_read_def deliver_chunk_def getBody_def new_HttpResponse_def)

end
